theory Spec2Isabelle
  imports Main "HOL-Library.Word" "HOL-Library.Signed_Division"
begin

section \<open>Machine integers of the engine\<close>

text \<open>
  The engine's scalar types (\<open>types.h\<close> is not among the sources; the widths are the ones
  the record layouts in \<open>experience.h\<close> state and assert): \<open>Key\<close> is a 64-bit hash,
  \<open>Value\<close> and \<open>Depth\<close> are C++ \<open>int\<close> (4 bytes each, and \<open>Eval::evaluate\<close> returns an
  \<open>int\<close> as a \<open>Value\<close>), \<open>Move\<close> occupies 4 bytes of a record. A C++ \<open>int\<close> is a
  \<open>32 word\<close> read as two's complement by \<open>sint\<close>; \<open>+\<close>, \<open>-\<close> and \<open>*\<close> wrap around.
\<close>

type_synonym Key = "64 word"
type_synonym Move = "32 word"
type_synonym Value = "32 word"
type_synonym Depth = "32 word"
type_synonym Square = "32 word"

text \<open>C++ \<open>a / b\<close> on \<open>int\<close>: the quotient is truncated towards zero.\<close>

definition int_div :: "32 word \<Rightarrow> 32 word \<Rightarrow> 32 word" where
  "int_div a b = word_of_int (sint a sdiv sint b)"

text \<open>\<open>std::max(a, b)\<close> on \<open>int\<close>: \<open>(a < b) ? b : a\<close>, the comparison being signed.\<close>

definition int_max :: "32 word \<Rightarrow> 32 word \<Rightarrow> 32 word" where
  "int_max a b = (if a <s b then b else a)"

text \<open>\<open>std::abs(a)\<close> on \<open>int\<close>.\<close>

definition int_abs :: "32 word \<Rightarrow> 32 word" where
  "int_abs a = (if a <s 0 then - a else a)"

text \<open>\<open>std::clamp(v, lo, hi)\<close> on \<open>int\<close>: \<open>(v < lo) ? lo : (hi < v) ? hi : v\<close>.\<close>

definition int_clamp :: "32 word \<Rightarrow> 32 word \<Rightarrow> 32 word \<Rightarrow> 32 word" where
  "int_clamp v lo hi = (if v <s lo then lo else if hi <s v then hi else v)"

section \<open>Experience records\<close>

subsection \<open>Format V1\<close>

record V1_ExpEntry =
  key :: Key
  move :: Move
  "value" :: Value
  depth :: Depth
  padding :: "8 word list"

definition V1_ExpEntry_new :: "Key \<Rightarrow> Move \<Rightarrow> Value \<Rightarrow> Depth \<Rightarrow> V1_ExpEntry" where
  "V1_ExpEntry_new k m v d =
     \<lparr>V1_ExpEntry.key = k, move = m, value = v, depth = d, padding = [0x00, 0xFF, 0x00, 0xFF]\<rparr>"

text \<open>
  \<open>V1::ExpEntry::merge\<close>. The two assertions are the first two tests: \<open>None\<close> is a failed
  assertion, \<open>Some\<close> the record after the merge.
\<close>

definition V1_merge :: "V1_ExpEntry \<Rightarrow> V1_ExpEntry \<Rightarrow> V1_ExpEntry option" where
  "V1_merge this exp =
     (if V1_ExpEntry.key this \<noteq> V1_ExpEntry.key exp then None
      else if V1_ExpEntry.move this \<noteq> V1_ExpEntry.move exp then None
      else if V1_ExpEntry.depth exp <s V1_ExpEntry.depth this then Some this
      else if V1_ExpEntry.depth this = V1_ExpEntry.depth exp
        then Some (this\<lparr>V1_ExpEntry.value :=
                     int_div (V1_ExpEntry.value this + V1_ExpEntry.value exp) 2\<rparr>)
      else Some (this\<lparr>V1_ExpEntry.value := V1_ExpEntry.value exp,
                      V1_ExpEntry.depth := V1_ExpEntry.depth exp\<rparr>))"

definition V1_compare :: "V1_ExpEntry \<Rightarrow> V1_ExpEntry \<Rightarrow> 32 word" where
  "V1_compare this exp =
     (let v = V1_ExpEntry.value this * int_max (int_div (V1_ExpEntry.depth this) 5) 1
              - V1_ExpEntry.value exp * int_max (int_div (V1_ExpEntry.depth exp) 5) 1
      in if v = 0 then V1_ExpEntry.depth this - V1_ExpEntry.depth exp else v)"

subsection \<open>Format V2 (the current one)\<close>

record V2_ExpEntry =
  key :: Key
  move :: Move
  "value" :: Value
  depth :: Depth
  count :: "16 word"
  padding :: "8 word list"

definition V2_ExpEntry_new5 ::
  "Key \<Rightarrow> Move \<Rightarrow> Value \<Rightarrow> Depth \<Rightarrow> 16 word \<Rightarrow> V2_ExpEntry" where
  "V2_ExpEntry_new5 k m v d c =
     \<lparr>V2_ExpEntry.key = k, move = m, value = v, depth = d, count = c, padding = [0x00, 0x00]\<rparr>"

definition V2_ExpEntry_new :: "Key \<Rightarrow> Move \<Rightarrow> Value \<Rightarrow> Depth \<Rightarrow> V2_ExpEntry" where
  "V2_ExpEntry_new k m v d = V2_ExpEntry_new5 k m v d 1"

text \<open>
  \<open>V2::ExpEntry::merge\<close>. The count is merged first, in \<open>uint32_t\<close>, and cast back to
  \<open>uint16_t\<close>; then value and depth as in V1. \<open>None\<close> is a failed assertion.
\<close>

definition V2_merge :: "V2_ExpEntry \<Rightarrow> V2_ExpEntry \<Rightarrow> V2_ExpEntry option" where
  "V2_merge this exp =
     (if V2_ExpEntry.key this \<noteq> V2_ExpEntry.key exp then None
      else if V2_ExpEntry.move this \<noteq> V2_ExpEntry.move exp then None
      else
        let this1 = this\<lparr>count :=
              (ucast (min ((ucast (count this) :: 32 word) + (ucast (count exp) :: 32 word))
                          (0xFFFF :: 32 word)) :: 16 word)\<rparr>
        in if V2_ExpEntry.depth exp <s V2_ExpEntry.depth this1 then Some this1
           else if V2_ExpEntry.depth this1 = V2_ExpEntry.depth exp
             then Some (this1\<lparr>V2_ExpEntry.value :=
                           int_div (V2_ExpEntry.value this1 + V2_ExpEntry.value exp) 2\<rparr>)
           else Some (this1\<lparr>V2_ExpEntry.value := V2_ExpEntry.value exp,
                            V2_ExpEntry.depth := V2_ExpEntry.depth exp\<rparr>))"

text \<open>
  \<open>V2::ExpEntry::compare\<close>. The \<open>uint16_t\<close> count is promoted to \<open>int\<close> before it is
  divided or subtracted.
\<close>

definition V2_compare :: "V2_ExpEntry \<Rightarrow> V2_ExpEntry \<Rightarrow> 32 word" where
  "V2_compare this exp =
     (let v = V2_ExpEntry.value this * int_max (int_div (V2_ExpEntry.depth this) 10) 1
                * int_max (int_div (ucast (count this)) 3) 1
              - V2_ExpEntry.value exp * int_max (int_div (V2_ExpEntry.depth exp) 10) 1
                * int_max (int_div (ucast (count exp)) 3) 1
      in if v \<noteq> 0 then v
         else let v = ucast (count this) - ucast (count exp)
              in if v \<noteq> 0 then v
                 else V2_ExpEntry.depth this - V2_ExpEntry.depth exp)"

subsection \<open>The in-memory record and its chain\<close>

text \<open>
  \<open>ExpEntryEx\<close> is a V2 record with the pointer to the next record of the same key;
  \<open>None\<close> is the null pointer. A chain is finite.
\<close>

datatype ExpEntryEx = ExpEntryEx (entry: V2_ExpEntry) (nxt: "ExpEntryEx option")

text \<open>The constructor's count parameter is a \<open>uint8_t\<close>, widened into the 16-bit field.\<close>

definition ExpEntryEx_new :: "Key \<Rightarrow> Move \<Rightarrow> Value \<Rightarrow> Depth \<Rightarrow> 8 word \<Rightarrow> ExpEntryEx" where
  "ExpEntryEx_new k m v d c = ExpEntryEx (V2_ExpEntry_new5 k m v d (ucast c)) None"

text \<open>\<open>find(m)\<close>: the first record of the chain with move \<open>m\<close>.\<close>

fun find_move :: "ExpEntryEx \<Rightarrow> Move \<Rightarrow> ExpEntryEx option" where
  "find_move (ExpEntryEx e n) m =
     (if V2_ExpEntry.move e = m then Some (ExpEntryEx e n)
      else (case n of None \<Rightarrow> None | Some exp \<Rightarrow> find_move exp m))"

text \<open>\<open>find(mv, minDepth)\<close>: the walk stops at the first record with move \<open>mv\<close>.\<close>

fun find_min_depth :: "ExpEntryEx \<Rightarrow> Move \<Rightarrow> Depth \<Rightarrow> ExpEntryEx option" where
  "find_min_depth (ExpEntryEx e n) mv minDepth =
     (if V2_ExpEntry.move e = mv
      then (if V2_ExpEntry.depth e <s minDepth then None else Some (ExpEntryEx e n))
      else (case n of None \<Rightarrow> None | Some temp \<Rightarrow> find_min_depth temp mv minDepth))"

text \<open>The records of a chain, in the order the walk visits them.\<close>

fun chain :: "ExpEntryEx \<Rightarrow> ExpEntryEx list" where
  "chain (ExpEntryEx e n) =
     ExpEntryEx e n # (case n of None \<Rightarrow> [] | Some exp \<Rightarrow> chain exp)"

subsection \<open>The ranking order as the specification words it\<close>

text \<open>
  The specification's primary score of a V2 record, over the integers:
  \<open>value * max(depth/10, 1) * max(count/3, 1)\<close>, the divisions truncating.
\<close>

definition primary_score :: "V2_ExpEntry \<Rightarrow> int" where
  "primary_score e =
     sint (V2_ExpEntry.value e) * max (sint (V2_ExpEntry.depth e) sdiv 10) 1
       * max (uint (count e) sdiv 3) 1"

section \<open>The learning store\<close>

text \<open>
  What the engine takes from files that are not among the sources: the constants
  \<open>VALUE_NONE\<close>, \<open>Move::none()\<close> and \<open>SQ_NONE\<close> of \<open>types.h\<close>, and the operations of the
  position layer that \<open>Engine::set_position\<close> calls, on positions of any type \<open>'p\<close>
  (a position carries its list of \<open>StateInfo\<close>): \<open>Position::set\<close>, \<open>Position::key\<close>,
  \<open>UCIEngine::to_move\<close> (which returns \<open>Move::none()\<close> for a string that is not a legal
  move), \<open>Position::do_move\<close>, the \<open>dirtyPiece\<close> of the last state, and \<open>Move::to_sq\<close>.
\<close>

record 'p Layer =
  VALUE_NONE :: Value
  Move_none :: Move
  SQ_NONE :: Square
  pos_set :: "string \<Rightarrow> bool \<Rightarrow> 'p"
  pos_key :: "'p \<Rightarrow> Key"
  to_move :: "'p \<Rightarrow> string \<Rightarrow> Move"
  do_move :: "'p \<Rightarrow> Move \<Rightarrow> 'p"
  dirty_num :: "'p \<Rightarrow> 32 word"
  dirty_to1 :: "'p \<Rightarrow> Square"
  to_sq :: "Move \<Rightarrow> Square"

datatype LearningMode = Off | Standard | Self

record LearningMove =
  depth :: Depth
  score :: Value
  move :: Move
  performance :: "32 word"

text \<open>The default member initialisers of \<open>LearningMove\<close>.\<close>

definition LearningMove_default :: "'p Layer \<Rightarrow> LearningMove" where
  "LearningMove_default X =
     \<lparr>depth = 0, score = VALUE_NONE X, move = Move_none X, performance = 100\<rparr>"

record PersistedLearningMove =
  key :: Key
  learningMove :: LearningMove

text \<open>
  \<open>LearningData\<close>: the flags, and the multimap \<open>HT\<close> from keys to moves as the list of its
  pairs. The two vectors of raw buffers hold the memory of the records and are left out.
\<close>

record LearningData =
  isPaused :: bool
  isReadOnly :: bool
  needPersisting :: bool
  learningMode :: LearningMode
  HT :: "(Key \<times> LearningMove) list"

definition is_paused :: "LearningData \<Rightarrow> bool" where
  "is_paused ld = isPaused ld"

definition is_enabled :: "LearningData \<Rightarrow> bool" where
  "is_enabled ld = (learningMode ld \<noteq> Off)"

definition set_readonly :: "LearningData \<Rightarrow> bool \<Rightarrow> LearningData" where
  "set_readonly ld ro = ld\<lparr>isReadOnly := ro\<rparr>"

definition is_readonly :: "LearningData \<Rightarrow> bool" where
  "is_readonly ld = isReadOnly ld"

text \<open>
  Modelled from the spec: the body of \<open>LearningData::learning_mode()\<close>, which \<open>learn.h\<close>
  only declares. The mode is one of \<open>Off\<close>, \<open>Standard\<close>, \<open>Self\<close> and is set explicitly;
  the getter returns it.
\<close>

definition learning_mode :: "LearningData \<Rightarrow> LearningMode" where
  "learning_mode ld = learningMode ld"

text \<open>
  Modelled from the spec: the merge of an incoming observation into the stored one of the
  same key and move, for the records of \<open>LearningData\<close>, whose code is not among the
  sources. Section 4.2: a deeper stored observation is kept; at equal depths the value
  becomes the integer average; a deeper incoming observation replaces value and depth.
  A \<open>LearningMove\<close> has no count, and its value is its \<open>score\<close>.
\<close>

definition LearningMove_merge :: "LearningMove \<Rightarrow> LearningMove \<Rightarrow> LearningMove" where
  "LearningMove_merge existing incoming =
     (if LearningMove.depth incoming <s LearningMove.depth existing then existing
      else if LearningMove.depth existing = LearningMove.depth incoming
        then existing\<lparr>score := int_div (score existing + score incoming) 2\<rparr>
      else existing\<lparr>score := score incoming,
                     LearningMove.depth := LearningMove.depth incoming\<rparr>)"

text \<open>
  Modelled from the spec: the scan of \<open>insert_or_update\<close>, whose body (\<open>learn.cpp\<close>) is
  not among the sources. Section 4.3: it scans the candidate set for an existing
  (key, move); if found, it merges; else it appends a new record.
\<close>

fun HT_insert_or_update ::
  "(Key \<times> LearningMove) list \<Rightarrow> Key \<Rightarrow> LearningMove \<Rightarrow> (Key \<times> LearningMove) list" where
  "HT_insert_or_update [] k lm = [(k, lm)]"
| "HT_insert_or_update ((k', e) # rest) k lm =
     (if k' = k \<and> LearningMove.move e = LearningMove.move lm
      then (k', LearningMove_merge e lm) # rest
      else (k', e) # HT_insert_or_update rest k lm)"

text \<open>
  Modelled from the spec: the body of \<open>LearningData::insert_or_update\<close>, which \<open>learn.h\<close>
  only declares. Section 4.4: writes are suppressed entirely when the mode is \<open>Off\<close>, when
  \<open>paused\<close> is true, or when \<open>readonly\<close> is true; a suppressed write is a silent no-op.
  The specification gives the flag \<open>qLearning\<close> no role.
\<close>

definition insert_or_update ::
  "LearningData \<Rightarrow> PersistedLearningMove \<Rightarrow> bool \<Rightarrow> LearningData" where
  "insert_or_update ld plm qLearning =
     (if learningMode ld = Off \<or> isPaused ld \<or> isReadOnly ld then ld
      else ld\<lparr>HT := HT_insert_or_update (HT ld) (PersistedLearningMove.key plm)
                       (learningMove plm)\<rparr>)"

text \<open>
  Modelled from the spec: the body of \<open>LearningData::add_new_learning\<close>, which \<open>learn.h\<close>
  only declares. Section 4.6: a write entry point routes through the gating of
  section 4.4 and \<open>insert_or_update\<close>.
\<close>

definition add_new_learning :: "LearningData \<Rightarrow> Key \<Rightarrow> LearningMove \<Rightarrow> LearningData" where
  "add_new_learning ld k lm =
     insert_or_update ld \<lparr>PersistedLearningMove.key = k, learningMove = lm\<rparr> False"

section \<open>Setting a position by replaying moves\<close>

text \<open>
  The state \<open>Engine::set_position\<close> works on: the position (with its states), \<open>capSq\<close>,
  the option \<open>UCI_Chess960\<close>, and the global \<open>LD\<close>.
\<close>

record 'p Engine =
  pos :: 'p
  capSq :: Square
  UCI_Chess960 :: bool
  LD :: LearningData

text \<open>The loop over the moves; \<open>break\<close> at a move that does not decode.\<close>

fun set_position_moves :: "'p Layer \<Rightarrow> 'p Engine \<Rightarrow> string list \<Rightarrow> 'p Engine" where
  "set_position_moves X E [] = E"
| "set_position_moves X E (mv # moves) =
     (let m = to_move X (pos E) mv
      in if m = Move_none X then E
         else
           let E1 =
                 (if is_enabled (LD E) \<and> learning_mode (LD E) \<noteq> Self \<and> \<not> is_paused (LD E)
                  then
                    let persistedLearningMove =
                          \<lparr>PersistedLearningMove.key = pos_key X (pos E),
                           learningMove = (LearningMove_default X)
                             \<lparr>LearningMove.depth := 0, LearningMove.move := m,
                              score := VALUE_NONE X, performance := 100\<rparr>\<rparr>
                    in E\<lparr>LD := add_new_learning (LD E)
                                (PersistedLearningMove.key persistedLearningMove)
                                (learningMove persistedLearningMove)\<rparr>
                  else E);
               E2 = E1\<lparr>pos := do_move X (pos E1) m\<rparr>;
               E3 = E2\<lparr>capSq := SQ_NONE X\<rparr>;
               E4 = (if 1 <s dirty_num X (pos E3) \<and> dirty_to1 X (pos E3) = SQ_NONE X
                     then E3\<lparr>capSq := to_sq X m\<rparr> else E3)
           in set_position_moves X E4 moves)"

definition set_position :: "'p Layer \<Rightarrow> 'p Engine \<Rightarrow> string \<Rightarrow> string list \<Rightarrow> 'p Engine" where
  "set_position X E fen moves =
     set_position_moves X (E\<lparr>pos := pos_set X fen (UCI_Chess960 E), capSq := SQ_NONE X\<rparr>) moves"

text \<open>
  The replayed moves of a move list: the moves that decode, up to the first string that does
  not, each with the position it is decoded in, which is the position before it is made.
\<close>

fun replayed :: "'p Layer \<Rightarrow> 'p \<Rightarrow> string list \<Rightarrow> ('p \<times> Move) list" where
  "replayed X p [] = []"
| "replayed X p (mv # moves) =
     (let m = to_move X p mv
      in if m = Move_none X then [] else (p, m) # replayed X (do_move X p m) moves)"

text \<open>The record \<open>set_position\<close> hands to the store for a replayed move.\<close>

definition replay_write :: "'p Layer \<Rightarrow> LearningData \<Rightarrow> 'p \<times> Move \<Rightarrow> LearningData" where
  "replay_write X ld pm =
     add_new_learning ld (pos_key X (fst pm))
       \<lparr>depth = 0, score = VALUE_NONE X, move = snd pm, performance = 100\<rparr>"

text \<open>
  A small position layer and engine state for worked examples: a position is the number of
  moves made, its key is that number plus 1000, and two move strings decode.
\<close>

definition example_layer :: "nat Layer" where
  "example_layer =
     \<lparr>VALUE_NONE = 32002, Move_none = 0, SQ_NONE = 64,
      pos_set = (\<lambda>fen chess960. 0),
      pos_key = (\<lambda>p. of_nat p + 1000),
      to_move = (\<lambda>p s. if s = ''e2e4'' then 796 else if s = ''e7e5'' then 3364 else 0),
      do_move = (\<lambda>p m. Suc p),
      dirty_num = (\<lambda>p. 1),
      dirty_to1 = (\<lambda>p. 64),
      to_sq = (\<lambda>m. m)\<rparr>"

definition example_engine :: "LearningMode \<Rightarrow> bool \<Rightarrow> bool \<Rightarrow> nat Engine" where
  "example_engine mode paused readonly =
     \<lparr>pos = 0, capSq = 64, UCI_Chess960 = False,
      LD = \<lparr>isPaused = paused, isReadOnly = readonly, needPersisting = False,
            learningMode = mode, HT = []\<rparr>\<rparr>"

section \<open>The static evaluation\<close>

datatype Color = WHITE | BLACK

text \<open>\<open>~c\<close>: the other colour.\<close>

fun flip_color :: "Color \<Rightarrow> Color" where
  "flip_color WHITE = BLACK"
| "flip_color BLACK = WHITE"

datatype NetSize = Big | Small

text \<open>
  What \<open>Eval::evaluate\<close> asks of a position: \<open>checkers()\<close>, \<open>side_to_move()\<close>,
  \<open>count<PAWN>(c)\<close> and \<open>count<PAWN>()\<close>, \<open>non_pawn_material(c)\<close> and
  \<open>non_pawn_material()\<close>, \<open>rule50_count()\<close>, and \<open>this_thread()->optimism[c]\<close>.
\<close>

record Position =
  checkers :: "64 word"
  side_to_move :: Color
  count_PAWN :: "Color \<Rightarrow> 32 word"
  count_PAWN_all :: "32 word"
  non_pawn_material :: "Color \<Rightarrow> 32 word"
  non_pawn_material_all :: "32 word"
  rule50_count :: "32 word"
  optimism :: "Color \<Rightarrow> 32 word"

text \<open>
  What \<open>evaluate.cpp\<close> takes from files that are not among the sources: the constants
  \<open>PawnValue\<close>, \<open>SmallNetThreshold\<close>, \<open>PsqtOnlyThreshold\<close>, \<open>VALUE_TB_WIN_IN_MAX_PLY\<close> and
  \<open>VALUE_TB_LOSS_IN_MAX_PLY\<close>, and the network evaluation \<open>NNUE::evaluate<Net>(pos,
  adjusted, &complexity, psqtOnly)\<close>, which returns the value and stores the complexity.
\<close>

record Eval_env =
  PawnValue :: Value
  SmallNetThreshold :: "32 word"
  PsqtOnlyThreshold :: "32 word"
  VALUE_TB_WIN_IN_MAX_PLY :: Value
  VALUE_TB_LOSS_IN_MAX_PLY :: Value
  NNUE_evaluate :: "NetSize \<Rightarrow> Position \<Rightarrow> bool \<Rightarrow> bool \<Rightarrow> Value \<times> 32 word"

definition simple_eval :: "Eval_env \<Rightarrow> Position \<Rightarrow> Color \<Rightarrow> 32 word" where
  "simple_eval C p c =
     PawnValue C * (count_PAWN p c - count_PAWN p (flip_color c))
     + (non_pawn_material p c - non_pawn_material p (flip_color c))"

text \<open>
  The lambda \<open>adjustEval\<close>, with the locals it captures as arguments. It updates
  \<open>optimism\<close> and \<open>nnue\<close>, which are not read after the call, and returns the blend.
\<close>

definition adjustEval ::
  "Position \<Rightarrow> 32 word \<Rightarrow> Value \<Rightarrow> 32 word \<Rightarrow> 32 word \<Rightarrow>
   32 word \<Rightarrow> 32 word \<Rightarrow> 32 word \<Rightarrow> 32 word \<Rightarrow> 32 word \<Rightarrow> 32 word \<Rightarrow> 32 word \<Rightarrow> 32 word \<Rightarrow>
   32 word" where
  "adjustEval p simpleEval nnue nnueComplexity optimism0
     optDiv nnueDiv pawnCountConstant pawnCountMul npmConstant evalDiv
     shufflingConstant shufflingDiv =
     (let absDiff = int_abs (simpleEval - nnue);
          optimism1 = optimism0 + int_div (optimism0 * (nnueComplexity + absDiff)) optDiv;
          nnue1 = nnue - int_div (nnue * (nnueComplexity + absDiff)) nnueDiv;
          npm = int_div (non_pawn_material_all p) 64
      in int_div (nnue1 * (npm + pawnCountConstant + pawnCountMul * count_PAWN_all p)
                  + optimism1 * (npmConstant + npm)) evalDiv)"

text \<open>\<open>Eval::evaluate\<close>; \<open>None\<close> is the failed assertion that the side to move is not in check.\<close>

definition evaluate :: "Eval_env \<Rightarrow> Position \<Rightarrow> Value option" where
  "evaluate C p =
     (if checkers p \<noteq> 0 then None
      else
        let simpleEval = simple_eval C p (side_to_move p);
            smallNet = SmallNetThreshold C <s int_abs simpleEval;
            psqtOnly = PsqtOnlyThreshold C <s int_abs simpleEval;
            (nnue, nnueComplexity) =
               (if smallNet then NNUE_evaluate C Small p True psqtOnly
                else NNUE_evaluate C Big p True False);
            optimism0 = optimism p (side_to_move p);
            optDiv = (if smallNet then 517 else 499);
            nnueDiv = (if smallNet then 32857 else 32793);
            pawnCountConstant = (if smallNet then 908 else 903);
            pawnCountMul = (if smallNet then 7 else 9);
            npmConstant = (if smallNet then 155 else 147);
            evalDiv = (if smallNet then 1019 else 1067);
            shufflingConstant = (if smallNet then 224 else 208);
            shufflingDiv = (if smallNet then 238 else 211);
            v = adjustEval p simpleEval nnue nnueComplexity optimism0
                  optDiv nnueDiv pawnCountConstant pawnCountMul npmConstant evalDiv
                  shufflingConstant shufflingDiv;
            shuffling = rule50_count p;
            v = int_div (v * (shufflingConstant - shuffling)) shufflingDiv;
            v = int_clamp v (VALUE_TB_LOSS_IN_MAX_PLY C + 1) (VALUE_TB_WIN_IN_MAX_PLY C - 1)
        in Some v)"

text \<open>
  An evaluation environment with the constants of the engine this one derives from and a
  network that answers a fixed value, and a position with equal material, for worked examples.
\<close>

definition example_env :: "Value \<Rightarrow> Eval_env" where
  "example_env nnue =
     \<lparr>PawnValue = 208, SmallNetThreshold = 1165, PsqtOnlyThreshold = 2500,
      VALUE_TB_WIN_IN_MAX_PLY = 31507, VALUE_TB_LOSS_IN_MAX_PLY = - 31507,
      NNUE_evaluate = (\<lambda>net pos adjusted psqtOnly. (nnue, 30))\<rparr>"

definition example_position :: Position where
  "example_position =
     \<lparr>checkers = 0, side_to_move = WHITE,
      count_PAWN = (\<lambda>c. 8), count_PAWN_all = 16,
      non_pawn_material = (\<lambda>c. 3200), non_pawn_material_all = 6400,
      rule50_count = 0, optimism = (\<lambda>c. 0)\<rparr>"

section \<open>Facts about the machine operations\<close>

lemma sint_int_max: "sint (int_max a b) = max (sint a) (sint b)"
  by (simp add: int_max_def word_sless_alt max_def)

lemma abs_sdiv_int: "\<bar>(k::int) sdiv l\<bar> = \<bar>k\<bar> div \<bar>l\<bar>"
proof (cases "k = 0 \<or> l = 0")
  case True
  then show ?thesis by (auto simp: signed_divide_int_def)
next
  case False
  then have "\<bar>sgn k\<bar> = 1" "\<bar>sgn l\<bar> = 1" by (simp_all add: abs_sgn_eq)
  moreover have "0 \<le> \<bar>k\<bar> div \<bar>l\<bar>" by (simp add: div_int_pos_iff)
  ultimately show ?thesis by (simp add: signed_divide_int_def abs_mult)
qed

lemma abs_sdiv_int_le: "\<bar>(k::int) sdiv l\<bar> \<le> \<bar>k\<bar>"
proof -
  have "\<bar>k\<bar> div \<bar>l\<bar> \<le> \<bar>k\<bar>"
    by (metis abs_0 abs_ge_zero div_by_0 div_by_1 linorder_not_less
    zabs_less_one_iff zdiv_mono2)
  then show ?thesis by (simp add: abs_sdiv_int)
qed

lemma sint_int_div:
  assumes "0 \<le> sint b"
  shows "sint (int_div a b) = sint a sdiv sint b"
proof -
  have r: "- (2 ^ 31) \<le> sint a" "sint a < 2 ^ 31"
    using sint_ge [of a] sint_lt [of a] by simp_all
  have "\<bar>sint a sdiv sint b\<bar> \<le> \<bar>sint a\<bar>" by (rule abs_sdiv_int_le)
  moreover have "sint a < 0 \<Longrightarrow> sint a sdiv sint b \<le> 0"
    using assms by (auto simp: signed_divide_int_def sgn_if pos_imp_zdiv_nonneg_iff)
  ultimately have "- (2 ^ 31) \<le> sint a sdiv sint b \<and> sint a sdiv sint b < 2 ^ 31"
    using r by linarith
  then show ?thesis
    by (simp add: int_div_def sint_sbintrunc' signed_take_bit_int_eq_self)
qed

lemma unat_ucast_16_32: "unat (ucast (c::16 word) :: 32 word) = unat c"
proof -
  have "unat c < 2 ^ 16" using unsigned_less [of c, where 'a = nat] by simp
  then have "unat c < 2 ^ 32" by simp
  then show ?thesis by (simp add: unsigned_ucast_eq take_bit_nat_eq_self)
qed

lemma count_sat:
  fixes ca cb :: "16 word"
  shows "unat (ucast (min ((ucast ca :: 32 word) + (ucast cb :: 32 word)) (0xFFFF :: 32 word)) :: 16 word)
         = min (unat ca + unat cb) 65535"
proof -
  let ?s = "(ucast ca :: 32 word) + (ucast cb :: 32 word)"
  have a: "unat ca < 2 ^ 16" using unsigned_less [of ca, where 'a = nat] by simp
  have b: "unat cb < 2 ^ 16" using unsigned_less [of cb, where 'a = nat] by simp
  have "unat (ucast ca :: 32 word) + unat (ucast cb :: 32 word) < 2 ^ LENGTH(32)"
    using a b by (simp add: unat_ucast_16_32)
  then have "unat ?s = unat (ucast ca :: 32 word) + unat (ucast cb :: 32 word)"
    by (rule unat_add_lem [THEN iffD1])
  then have s: "unat ?s = unat ca + unat cb"
    by (simp only: unat_ucast_16_32)
  have m: "unat (min ?s 0xFFFF) = min (unat ca + unat cb) 65535"
    by (simp add: min_def word_le_nat_alt s)
  then have "unat (min ?s 0xFFFF) < 2 ^ 16" by simp
  then have "unat (ucast (min ?s 0xFFFF) :: 16 word) = unat (min ?s 0xFFFF)"
    by (simp add: unsigned_ucast_eq take_bit_nat_eq_self)
  with m show ?thesis by simp
qed

lemma sless_total: "\<not> (b::32 word) <s a \<Longrightarrow> a \<noteq> b \<Longrightarrow> a <s b"
  using signed.less_linear [of a b] by blast

lemma sint_ucast_16_32: "sint (ucast (c::16 word) :: 32 word) = uint c"
proof -
  have u: "uint c < 2 ^ 16" using unsigned_less [of c, where 'a = int] by simp
  have lo: "- (2 ^ 31) \<le> uint c" by (rule order_trans [of _ 0]) simp_all
  have hi: "uint c < 2 ^ 31" by (rule less_trans [OF u]) simp
  from lo hi show ?thesis by (simp add: signed_ucast_eq signed_take_bit_int_eq_self)
qed

lemma sint_minus_32:
  assumes "sint (w::32 word) \<noteq> - (2 ^ 31)"
  shows "sint (- w) = - sint w"
proof -
  have "- (2 ^ 31) \<le> sint w" "sint w < 2 ^ 31"
    using sint_ge [of w] sint_lt [of w] by simp_all
  with assms have "- (2 ^ 31) \<le> - sint w" "- sint w < 2 ^ 31" by linarith+
  then show ?thesis by (simp add: sint_word_minus signed_take_bit_int_eq_self)
qed

lemma sint_word_of_int_32:
  assumes "- (2 ^ 31) \<le> k" and "k < 2 ^ 31"
  shows "sint (word_of_int k :: 32 word) = k"
  using assms by (simp add: sint_sbintrunc' signed_take_bit_int_eq_self)

lemma ucast_16_32_of_int: "(ucast (c::16 word) :: 32 word) = word_of_int (uint c)"
  by (rule ucast_eq)

lemma primary_score_word:
  "word_of_int (primary_score e) =
     V2_ExpEntry.value e * int_max (int_div (V2_ExpEntry.depth e) 10) 1
       * int_max (int_div (ucast (count e)) 3) 1"
proof -
  have d: "sint (int_max (int_div (V2_ExpEntry.depth e) 10) 1)
           = max (sint (V2_ExpEntry.depth e) sdiv 10) 1"
    by (simp add: sint_int_max sint_int_div)
  have c: "sint (int_max (int_div (ucast (count e)) 3) 1) = max (uint (count e) sdiv 3) 1"
    by (simp add: sint_int_max sint_int_div sint_ucast_16_32)
  have "word_of_int (primary_score e) =
      (word_of_int (sint (V2_ExpEntry.value e)) :: 32 word)
      * word_of_int (sint (int_max (int_div (V2_ExpEntry.depth e) 10) 1))
      * word_of_int (sint (int_max (int_div (ucast (count e)) 3) 1))"
    by (simp only: primary_score_def d c of_int_mult)
  then show ?thesis by simp
qed

lemma sdiv_small_nonpos:
  fixes k :: int
  assumes "k < 10"
  shows "k sdiv 10 \<le> 0"
proof (cases "0 \<le> k")
  case True
  with assms have "\<bar>k\<bar> div 10 = 0" by simp
  then show ?thesis by (simp add: signed_divide_int_def)
next
  case False
  then have "sgn k = - 1" by simp
  moreover have "0 \<le> \<bar>k\<bar> div 10" by simp
  ultimately show ?thesis by (simp add: signed_divide_int_def)
qed

section \<open>Facts about the learning store and the replay\<close>

lemma add_new_learning_flags:
  "learningMode (add_new_learning ld k lm) = learningMode ld"
  "isPaused (add_new_learning ld k lm) = isPaused ld"
  "isReadOnly (add_new_learning ld k lm) = isReadOnly ld"
  by (simp_all add: add_new_learning_def insert_or_update_def)

lemma replay_write_flags:
  "learningMode (replay_write X ld pm) = learningMode ld"
  "isPaused (replay_write X ld pm) = isPaused ld"
  "isReadOnly (replay_write X ld pm) = isReadOnly ld"
  by (simp_all add: replay_write_def add_new_learning_flags)

lemma add_new_learning_suppressed:
  "learningMode ld = Off \<or> isPaused ld \<or> isReadOnly ld \<Longrightarrow> add_new_learning ld k lm = ld"
  by (simp add: add_new_learning_def insert_or_update_def)

lemma LD_set_position_moves:
  "LD (set_position_moves X E moves) =
     (if is_enabled (LD E) \<and> learning_mode (LD E) \<noteq> Self \<and> \<not> is_paused (LD E)
      then foldl (replay_write X) (LD E) (replayed X (pos E) moves)
      else LD E)"
proof (induction moves arbitrary: E)
  case Nil
  then show ?case by simp
next
  case (Cons mv moves)
  show ?case
  proof (cases "to_move X (pos E) mv = Move_none X")
    case True
    then show ?thesis by simp
  next
    case False
    then show ?thesis
      by (simp add: Cons.IH Let_def is_enabled_def learning_mode_def is_paused_def
          add_new_learning_flags replay_write_flags LearningMove_default_def)
        (simp add: replay_write_def)
  qed
qed

lemma replay_write_eq:
  "(\<lambda>ld (p, m). add_new_learning ld (pos_key X p)
        \<lparr>depth = 0, score = VALUE_NONE X, move = m, performance = 100\<rparr>) = replay_write X"
  by (auto simp: replay_write_def fun_eq_iff)

lemma foldl_replay_write_suppressed:
  "learningMode ld = Off \<or> isPaused ld \<or> isReadOnly ld \<Longrightarrow> foldl (replay_write X) ld xs = ld"
  by (induction xs) (simp_all add: replay_write_def add_new_learning_suppressed)

lemma LearningMove_merge_move:
  "LearningMove.move (LearningMove_merge e lm) = LearningMove.move e"
  by (simp add: LearningMove_merge_def)

lemma HT_insert_or_update_has:
  "\<exists>e. (k, e) \<in> set (HT_insert_or_update h k lm) \<and> LearningMove.move e = LearningMove.move lm"
proof (induction h)
  case Nil
  then show ?case by simp
next
  case (Cons x h)
  obtain k' e' where x: "x = (k', e')" by (cases x)
  show ?case
  proof (cases "k' = k \<and> LearningMove.move e' = LearningMove.move lm")
    case True
    then show ?thesis by (auto simp: x LearningMove_merge_move)
  next
    case False
    with Cons.IH show ?thesis by (auto simp: x)
  qed
qed

lemma set_position_moves_stop:
  "to_move X (pos (set_position_moves X E ms)) mv = Move_none X \<Longrightarrow>
   set_position_moves X E (ms @ mv # rest) = set_position_moves X E ms"
proof (induction ms arbitrary: E)
  case Nil
  then show ?case by simp
next
  case (Cons m0 ms)
  show ?case
  proof (cases "to_move X (pos E) m0 = Move_none X")
    case True
    then show ?thesis by simp
  next
    case False
    with Cons.prems show ?thesis
      by (simp add: Let_def Cons.IH)
  qed
qed

lemma int_clamp_bounds:
  assumes "sint lo \<le> sint hi"
  shows "sint lo \<le> sint (int_clamp v lo hi) \<and> sint (int_clamp v lo hi) \<le> sint hi"
  using assms by (auto simp: int_clamp_def word_sless_alt)

lemma sint_succ_32:
  assumes "sint (w::32 word) < 2 ^ 31 - 1"
  shows "sint (w + 1) = sint w + 1"
proof -
  have "- (2 ^ 31) \<le> sint w" using sint_ge [of w] by simp
  with assms have "- (2 ^ 31) \<le> sint w + 1" "sint w + 1 < 2 ^ 31" by simp_all
  then have "signed_take_bit 31 (sint w + 1) = sint w + 1"
    by (rule signed_take_bit_int_eq_self)
  then show ?thesis using sint_word_add [of w 1] by simp
qed

lemma sint_pred_32:
  assumes "- (2 ^ 31) < sint (w::32 word)"
  shows "sint (w - 1) = sint w - 1"
proof -
  have "sint w < 2 ^ 31" using sint_lt [of w] by simp
  with assms have "- (2 ^ 31) \<le> sint w - 1" "sint w - 1 < 2 ^ 31" by simp_all
  then have "signed_take_bit 31 (sint w - 1) = sint w - 1"
    by (rule signed_take_bit_int_eq_self)
  then show ?thesis using sint_word_diff [of w 1] by simp
qed

section \<open>Merging two observations of one move\<close>

text \<open>
  C1. For V2 records \<open>a\<close> (existing) and \<open>b\<close> (incoming) with equal key and equal move,
  \<open>merge\<close> passes its assertions and leaves: the count \<open>min (a.count + b.count) 65535\<close>,
  whatever the depths are; the depth \<open>max a.depth b.depth\<close>; the value of \<open>a\<close> if \<open>a\<close>
  is deeper, the value of \<open>b\<close> if \<open>b\<close> is deeper, and for equal depths
  \<open>(a.value + b.value) / 2\<close>, the sum being the \<open>int\<close> sum and the quotient truncated
  towards zero; where the sum does not overflow this is the truncated mean of the two integers.
\<close>

theorem V2_merge_result:
  assumes "V2_ExpEntry.key a = V2_ExpEntry.key b" and "V2_ExpEntry.move a = V2_ExpEntry.move b"
  shows "\<exists>r. V2_merge a b = Some r
     \<and> unat (count r) = min (unat (count a) + unat (count b)) 65535
     \<and> sint (V2_ExpEntry.depth r) = max (sint (V2_ExpEntry.depth a)) (sint (V2_ExpEntry.depth b))
     \<and> (sint (V2_ExpEntry.depth b) < sint (V2_ExpEntry.depth a) \<longrightarrow>
            V2_ExpEntry.value r = V2_ExpEntry.value a)
     \<and> (sint (V2_ExpEntry.depth a) = sint (V2_ExpEntry.depth b) \<longrightarrow>
            V2_ExpEntry.value r = int_div (V2_ExpEntry.value a + V2_ExpEntry.value b) 2
          \<and> sint (V2_ExpEntry.value r) = sint (V2_ExpEntry.value a + V2_ExpEntry.value b) sdiv 2)
     \<and> (sint (V2_ExpEntry.depth a) = sint (V2_ExpEntry.depth b)
          \<and> - (2 ^ 31) \<le> sint (V2_ExpEntry.value a) + sint (V2_ExpEntry.value b)
          \<and> sint (V2_ExpEntry.value a) + sint (V2_ExpEntry.value b) < 2 ^ 31 \<longrightarrow>
            sint (V2_ExpEntry.value r) = (sint (V2_ExpEntry.value a) + sint (V2_ExpEntry.value b)) sdiv 2)
     \<and> (sint (V2_ExpEntry.depth a) < sint (V2_ExpEntry.depth b) \<longrightarrow>
            V2_ExpEntry.value r = V2_ExpEntry.value b)"
proof -
  have two: "sint (2 :: 32 word) = 2" by simp
  have avg: "sint (int_div w 2) = sint w sdiv 2" for w
    using sint_int_div [of 2 w] by (simp add: two)
  have sum: "sint (x + y) = sint x + sint y"
    if "- (2 ^ 31) \<le> sint x + sint y" and "sint x + sint y < 2 ^ 31" for x y :: "32 word"
    using that by (simp add: sint_word_add signed_take_bit_int_eq_self)
  consider (gt) "V2_ExpEntry.depth b <s V2_ExpEntry.depth a"
    | (eq) "V2_ExpEntry.depth a = V2_ExpEntry.depth b"
    | (lt) "V2_ExpEntry.depth a <s V2_ExpEntry.depth b"
    using sless_total by blast
  then show ?thesis
  proof cases
    case gt
    then have "sint (V2_ExpEntry.depth b) < sint (V2_ExpEntry.depth a)"
      by (simp add: word_sless_alt)
    with gt assms show ?thesis
      by (simp add: V2_merge_def Let_def count_sat)
  next
    case eq
    with assms show ?thesis
      by (simp add: V2_merge_def Let_def count_sat avg sum)
  next
    case lt
    then have "sint (V2_ExpEntry.depth a) < sint (V2_ExpEntry.depth b)"
      by (simp add: word_sless_alt)
    moreover from lt have "\<not> V2_ExpEntry.depth b <s V2_ExpEntry.depth a"
      and "V2_ExpEntry.depth a \<noteq> V2_ExpEntry.depth b"
      by (auto simp: word_sless_alt)
    ultimately show ?thesis using assms
      by (simp add: V2_merge_def Let_def count_sat)
  qed
qed

theorem V2_merge_result_witness:
  "\<exists>r. V2_merge (V2_ExpEntry_new5 7 3 50 10 1) (V2_ExpEntry_new5 7 3 70 10 1) = Some r
     \<and> unat (count r) = 2 \<and> sint (V2_ExpEntry.depth r) = 10 \<and> sint (V2_ExpEntry.value r) = 60"
  using V2_merge_result [of "V2_ExpEntry_new5 7 3 50 10 1" "V2_ExpEntry_new5 7 3 70 10 1"]
  by (auto simp add: V2_ExpEntry_new5_def signed_divide_int_def)

text \<open>
  C7. For V2 records with equal key and equal move and different depths, merging \<open>b\<close> into
  \<open>a\<close> and merging \<open>a\<close> into \<open>b\<close> leave the same value, depth and count.
\<close>

theorem V2_merge_strict_depth_commutes:
  assumes "V2_ExpEntry.key a = V2_ExpEntry.key b" and "V2_ExpEntry.move a = V2_ExpEntry.move b"
    and "V2_ExpEntry.depth a \<noteq> V2_ExpEntry.depth b"
  shows "\<exists>r s. V2_merge a b = Some r \<and> V2_merge b a = Some s
     \<and> (V2_ExpEntry.value r, V2_ExpEntry.depth r, count r)
       = (V2_ExpEntry.value s, V2_ExpEntry.depth s, count s)"
proof (cases "V2_ExpEntry.depth b <s V2_ExpEntry.depth a")
  case True
  then have "\<not> V2_ExpEntry.depth a <s V2_ExpEntry.depth b"
    by (auto simp: word_sless_alt)
  with True assms show ?thesis
    by (simp add: V2_merge_def Let_def add.commute)
next
  case False
  with assms(3) have "V2_ExpEntry.depth a <s V2_ExpEntry.depth b"
    using sless_total by blast
  with False assms show ?thesis
    by (simp add: V2_merge_def Let_def add.commute)
qed

theorem V2_merge_strict_depth_commutes_witness:
  "V2_merge (V2_ExpEntry_new5 7 3 50 8 1) (V2_ExpEntry_new5 7 3 70 12 4) \<noteq> None
   \<and> map_option (\<lambda>r. (V2_ExpEntry.value r, V2_ExpEntry.depth r, count r))
        (V2_merge (V2_ExpEntry_new5 7 3 50 8 1) (V2_ExpEntry_new5 7 3 70 12 4))
     = map_option (\<lambda>r. (V2_ExpEntry.value r, V2_ExpEntry.depth r, count r))
        (V2_merge (V2_ExpEntry_new5 7 3 70 12 4) (V2_ExpEntry_new5 7 3 50 8 1))"
  using V2_merge_strict_depth_commutes
    [of "V2_ExpEntry_new5 7 3 50 8 1" "V2_ExpEntry_new5 7 3 70 12 4"]
  by (auto simp add: V2_ExpEntry_new5_def)

section \<open>Ranking two records\<close>

text \<open>
  C3. \<open>compare(a, b) == -compare(b, a)\<close> for every pair of V2 records and for every pair of
  V1 records, as an equation between \<open>int\<close>s; it is the same equation between the integers
  they stand for unless \<open>compare(b, a)\<close> is the least \<open>int\<close>, whose negation is itself.
\<close>

theorem compare_antisymmetric:
  "V2_compare a b = - V2_compare b a
   \<and> (sint (V2_compare b a) \<noteq> - (2 ^ 31) \<longrightarrow> sint (V2_compare a b) = - sint (V2_compare b a))
   \<and> V1_compare c d = - V1_compare d c
   \<and> (sint (V1_compare d c) \<noteq> - (2 ^ 31) \<longrightarrow> sint (V1_compare c d) = - sint (V1_compare d c))"
proof -
  have 2: "V2_compare a b = - V2_compare b a"
    by (simp add: V2_compare_def Let_def)
  have 1: "V1_compare c d = - V1_compare d c"
    by (simp add: V1_compare_def Let_def)
  show ?thesis
    using sint_minus_32 [of "V2_compare b a"] sint_minus_32 [of "V1_compare d c"]
    by (simp add: 1 [symmetric] 2 [symmetric])
qed

theorem compare_antisymmetric_witness:
  "sint (V2_compare (V2_ExpEntry_new5 7 3 70 20 6) (V2_ExpEntry_new5 7 4 50 10 3)) = 230
   \<and> sint (V2_compare (V2_ExpEntry_new5 7 4 50 10 3) (V2_ExpEntry_new5 7 3 70 20 6)) = - 230
   \<and> sint (V1_compare (V1_ExpEntry_new 7 3 70 20) (V1_ExpEntry_new 7 4 50 10)) = 180
   \<and> sint (V1_compare (V1_ExpEntry_new 7 4 50 10) (V1_ExpEntry_new 7 3 70 20)) = - 180"
  using compare_antisymmetric [of "V2_ExpEntry_new5 7 3 70 20 6" "V2_ExpEntry_new5 7 4 50 10 3"
      "V1_ExpEntry_new 7 3 70 20" "V1_ExpEntry_new 7 4 50 10"]
  by (simp add: V2_compare_def V1_compare_def V2_ExpEntry_new5_def V1_ExpEntry_new_def Let_def
      int_div_def int_max_def word_sless_alt signed_divide_int_def)

text \<open>
  C4. \<open>V2::compare(a, b)\<close> is the difference of the primary scores, reduced to an
  \<open>int\<close>, when that is not zero; otherwise the difference of the counts when that is not
  zero; otherwise the difference of the depths. Where the difference of the scores fits an
  \<open>int\<close> and is not zero, the result is that difference. A depth below 10 and a count below
  3 give the multiplier 1, so with both the score is the value.
\<close>

theorem V2_compare_formula:
  "V2_compare a b =
     (let v = word_of_int (primary_score a - primary_score b) :: 32 word
      in if v \<noteq> 0 then v
         else let c = word_of_int (uint (count a) - uint (count b)) :: 32 word
              in if c \<noteq> 0 then c else V2_ExpEntry.depth a - V2_ExpEntry.depth b)
   \<and> (primary_score a \<noteq> primary_score b
        \<and> - (2 ^ 31) \<le> primary_score a - primary_score b
        \<and> primary_score a - primary_score b < 2 ^ 31
      \<longrightarrow> sint (V2_compare a b) = primary_score a - primary_score b)
   \<and> (primary_score a = primary_score b \<and> count a \<noteq> count b
      \<longrightarrow> sint (V2_compare a b) = uint (count a) - uint (count b))
   \<and> (primary_score a = primary_score b \<and> count a = count b
      \<longrightarrow> V2_compare a b = V2_ExpEntry.depth a - V2_ExpEntry.depth b)
   \<and> (sint (V2_ExpEntry.depth a) < 10 \<longrightarrow> max (sint (V2_ExpEntry.depth a) sdiv 10) 1 = 1)
   \<and> (uint (count a) < 3 \<longrightarrow> max (uint (count a) sdiv 3) 1 = 1)
   \<and> (sint (V2_ExpEntry.depth a) < 10 \<and> uint (count a) < 3
      \<longrightarrow> primary_score a = sint (V2_ExpEntry.value a))"
proof -
  let ?v = "word_of_int (primary_score a - primary_score b) :: 32 word"
  let ?c = "word_of_int (uint (count a) - uint (count b)) :: 32 word"
  have v: "V2_ExpEntry.value a * int_max (int_div (V2_ExpEntry.depth a) 10) 1
                * int_max (int_div (ucast (count a)) 3) 1
              - V2_ExpEntry.value b * int_max (int_div (V2_ExpEntry.depth b) 10) 1
                * int_max (int_div (ucast (count b)) 3) 1 = ?v"
    by (simp only: of_int_diff primary_score_word)
  have c: "(ucast (count a) :: 32 word) - ucast (count b) = ?c"
    by (simp only: of_int_diff ucast_16_32_of_int)
  have 1: "V2_compare a b =
     (let v = ?v in if v \<noteq> 0 then v
         else let c = ?c in if c \<noteq> 0 then c else V2_ExpEntry.depth a - V2_ExpEntry.depth b)"
    unfolding V2_compare_def v c ..
  have a16: "uint (count a) < 65536" using unsigned_less [of "count a", where 'a = int] by simp
  have b16: "uint (count b) < 65536" using unsigned_less [of "count b", where 'a = int] by simp
  have a0: "0 \<le> uint (count a)" and b0: "0 \<le> uint (count b)" by simp_all
  have "- 2147483648 \<le> uint (count a) - uint (count b)"
    and "uint (count a) - uint (count b) < 2147483648"
    using a16 b16 a0 b0 by linarith+
  then have crange: "- (2 ^ 31) \<le> uint (count a) - uint (count b)"
      "uint (count a) - uint (count b) < 2 ^ 31"
    by simp_all
  have sc: "sint ?c = uint (count a) - uint (count b)"
    using crange by (rule sint_word_of_int_32)
  have 2: "sint (V2_compare a b) = primary_score a - primary_score b"
    if "primary_score a \<noteq> primary_score b"
      and "- (2 ^ 31) \<le> primary_score a - primary_score b"
      and "primary_score a - primary_score b < 2 ^ 31"
  proof -
    have s: "sint ?v = primary_score a - primary_score b"
      using that(2,3) by (rule sint_word_of_int_32)
    with that(1) have "sint ?v \<noteq> 0" by simp
    then have "?v \<noteq> 0" by auto
    with s show ?thesis by (simp add: 1 Let_def)
  qed
  have 3: "sint (V2_compare a b) = uint (count a) - uint (count b)"
    if "primary_score a = primary_score b" and "count a \<noteq> count b"
  proof -
    from that(2) have "uint (count a) \<noteq> uint (count b)"
      by (auto dest: unsigned_word_eqI)
    then have "uint (count a) - uint (count b) \<noteq> 0" by simp
    with sc have "sint ?c \<noteq> 0" by simp
    then have "?c \<noteq> 0" by auto
    with sc that(1) show ?thesis by (simp add: 1 Let_def)
  qed
  have 4: "V2_compare a b = V2_ExpEntry.depth a - V2_ExpEntry.depth b"
    if "primary_score a = primary_score b" and "count a = count b"
    using that by (simp add: 1 Let_def)
  have 5: "max (sint (V2_ExpEntry.depth a) sdiv 10) 1 = 1" if "sint (V2_ExpEntry.depth a) < 10"
    using sdiv_small_nonpos [OF that] by simp
  have 6: "max (uint (count a) sdiv 3) 1 = 1" if "uint (count a) < 3"
    using that by (simp add: signed_divide_int_def)
  have 7: "primary_score a = sint (V2_ExpEntry.value a)"
    if "sint (V2_ExpEntry.depth a) < 10" and "uint (count a) < 3"
    using 5 [OF that(1)] 6 [OF that(2)] by (simp add: primary_score_def)
  from 1 2 3 4 5 6 7 show ?thesis by blast
qed

theorem V2_compare_formula_witness:
  "primary_score (V2_ExpEntry_new5 7 3 70 20 6) = 280
   \<and> primary_score (V2_ExpEntry_new5 7 4 50 10 3) = 50
   \<and> sint (V2_compare (V2_ExpEntry_new5 7 3 70 20 6) (V2_ExpEntry_new5 7 4 50 10 3)) = 230
   \<and> sint (V2_compare (V2_ExpEntry_new5 7 3 10 10 4) (V2_ExpEntry_new5 7 4 10 10 3)) = 1
   \<and> sint (V2_compare (V2_ExpEntry_new5 7 3 10 9 3) (V2_ExpEntry_new5 7 4 10 4 3)) = 5
   \<and> primary_score (V2_ExpEntry_new5 7 5 40 0 0) = 40"
proof -
  have s: "primary_score (V2_ExpEntry_new5 7 3 70 20 6) = 280"
    "primary_score (V2_ExpEntry_new5 7 4 50 10 3) = 50"
    "primary_score (V2_ExpEntry_new5 7 3 10 10 4) = 10"
    "primary_score (V2_ExpEntry_new5 7 4 10 10 3) = 10"
    "primary_score (V2_ExpEntry_new5 7 3 10 9 3) = 10"
    "primary_score (V2_ExpEntry_new5 7 4 10 4 3) = 10"
    by (simp_all add: primary_score_def V2_ExpEntry_new5_def signed_divide_int_def)
  have c: "count (V2_ExpEntry_new5 k m v d n) = n"
    "V2_ExpEntry.depth (V2_ExpEntry_new5 k m v d n) = d"
    "V2_ExpEntry.value (V2_ExpEntry_new5 k m v d n) = v" for k m v d n
    by (simp_all add: V2_ExpEntry_new5_def)
  show ?thesis
    using V2_compare_formula [of "V2_ExpEntry_new5 7 3 70 20 6" "V2_ExpEntry_new5 7 4 50 10 3"]
      V2_compare_formula [of "V2_ExpEntry_new5 7 3 10 10 4" "V2_ExpEntry_new5 7 4 10 10 3"]
      V2_compare_formula [of "V2_ExpEntry_new5 7 3 10 9 3" "V2_ExpEntry_new5 7 4 10 4 3"]
      V2_compare_formula [of "V2_ExpEntry_new5 7 5 40 0 0" "V2_ExpEntry_new5 7 5 40 0 0"]
    by (simp add: s c)
qed

section \<open>Walking a chain\<close>

text \<open>
  C5. \<open>find(mv, minDepth)\<close> returns null when no record of the chain has the move
  \<open>mv\<close>, and when the first record that has it is shallower than \<open>minDepth\<close>; it returns
  that first record exactly when its depth is at least \<open>minDepth\<close>.
\<close>

theorem find_min_depth_chain:
  "find_min_depth x mv minDepth =
     (case List.find (\<lambda>r. V2_ExpEntry.move (entry r) = mv) (chain x) of
        None \<Rightarrow> None
      | Some r \<Rightarrow> if minDepth \<le>s V2_ExpEntry.depth (entry r) then Some r else None)"
proof (induction x mv minDepth rule: find_min_depth.induct)
  case (1 e n mv minDepth)
  then show ?case
    by (cases n) (auto simp: word_sless_alt word_sle_eq)
qed

theorem find_min_depth_chain_witness:
  "find_min_depth
     (ExpEntryEx (V2_ExpEntry_new5 7 3 50 8 1)
        (Some (ExpEntryEx (V2_ExpEntry_new5 7 4 70 12 2)
           (Some (ExpEntryEx (V2_ExpEntry_new5 7 4 90 20 1) None))))) 4 10
     = Some (ExpEntryEx (V2_ExpEntry_new5 7 4 70 12 2)
           (Some (ExpEntryEx (V2_ExpEntry_new5 7 4 90 20 1) None)))
   \<and> find_min_depth
     (ExpEntryEx (V2_ExpEntry_new5 7 3 50 8 1)
        (Some (ExpEntryEx (V2_ExpEntry_new5 7 4 70 12 2)
           (Some (ExpEntryEx (V2_ExpEntry_new5 7 4 90 20 1) None))))) 4 13
     = None
   \<and> find_min_depth
     (ExpEntryEx (V2_ExpEntry_new5 7 3 50 8 1)
        (Some (ExpEntryEx (V2_ExpEntry_new5 7 4 70 12 2)
           (Some (ExpEntryEx (V2_ExpEntry_new5 7 4 90 20 1) None))))) 5 0
     = None"
  using find_min_depth_chain
      [of "ExpEntryEx (V2_ExpEntry_new5 7 3 50 8 1)
        (Some (ExpEntryEx (V2_ExpEntry_new5 7 4 70 12 2)
           (Some (ExpEntryEx (V2_ExpEntry_new5 7 4 90 20 1) None))))" 4 10]
    find_min_depth_chain
      [of "ExpEntryEx (V2_ExpEntry_new5 7 3 50 8 1)
        (Some (ExpEntryEx (V2_ExpEntry_new5 7 4 70 12 2)
           (Some (ExpEntryEx (V2_ExpEntry_new5 7 4 90 20 1) None))))" 4 13]
    find_min_depth_chain
      [of "ExpEntryEx (V2_ExpEntry_new5 7 3 50 8 1)
        (Some (ExpEntryEx (V2_ExpEntry_new5 7 4 70 12 2)
           (Some (ExpEntryEx (V2_ExpEntry_new5 7 4 90 20 1) None))))" 5 0]
  by (simp add: V2_ExpEntry_new5_def word_sle_eq)

text \<open>
  C8. The constructor of \<open>ExpEntryEx\<close> takes the count as a \<open>uint8_t\<close>: an integer argument
  \<open>n\<close> is converted to it, and the 16-bit field holds \<open>n mod 256\<close>, never more than 255.
\<close>

theorem ExpEntryEx_new_count:
  "uint (count (entry (ExpEntryEx_new k m v d (word_of_int n)))) = n mod 256
   \<and> unat (count (entry (ExpEntryEx_new k m v d c))) = unat c
   \<and> unat (count (entry (ExpEntryEx_new k m v d c))) \<le> 255"
proof -
  have u: "unat c < 2 ^ 8" using unsigned_less [of c, where 'a = nat] by simp
  then have "unat c < 2 ^ 16" by simp
  then have 1: "unat (ucast c :: 16 word) = unat c"
    by (simp add: unsigned_ucast_eq take_bit_nat_eq_self)
  have "uint (word_of_int n :: 8 word) = n mod 256"
    by (simp add: uint_word_of_int)
  moreover have "uint (ucast w :: 16 word) = uint w" for w :: "8 word"
  proof -
    have "uint w < 2 ^ 8" using unsigned_less [of w, where 'a = int] by simp
    then have "uint w < 2 ^ 16" by simp
    then show ?thesis by (simp add: unsigned_ucast_eq take_bit_int_eq_self)
  qed
  ultimately show ?thesis using u 1
    by (simp add: ExpEntryEx_new_def V2_ExpEntry_new5_def)
qed

theorem ExpEntryEx_new_count_witness:
  "uint (count (entry (ExpEntryEx_new 7 3 50 8 (word_of_int 300)))) = 44
   \<and> unat (count (entry (ExpEntryEx_new 7 3 50 8 255))) = 255"
  using ExpEntryEx_new_count [of 7 3 50 8 300 255]
  by simp

section \<open>Gating of writes and the replay of a move list\<close>

text \<open>
  C2. A write to the learning store takes effect only when the mode is not \<open>Off\<close>, the
  store is not paused and it is not read-only: when one of the three gates fails, the store
  is left as it was, by \<open>insert_or_update\<close>, by \<open>add_new_learning\<close> and so by the replay
  of \<open>Engine::set_position\<close>, whatever the moves are; when all three pass, the store holds
  a record of the written key and move afterwards.
\<close>

theorem write_gates:
  "(learningMode ld = Off \<or> isPaused ld \<or> isReadOnly ld \<longrightarrow>
      insert_or_update ld plm q = ld \<and> add_new_learning ld k lm = ld)
   \<and> (learningMode ld \<noteq> Off \<and> \<not> isPaused ld \<and> \<not> isReadOnly ld \<longrightarrow>
      (\<exists>e. (k, e) \<in> set (HT (add_new_learning ld k lm))
           \<and> LearningMove.move e = LearningMove.move lm))
   \<and> (learningMode (LD E) = Off \<or> isPaused (LD E) \<or> isReadOnly (LD E) \<longrightarrow>
      LD (set_position X E fen moves) = LD E)"
proof -
  have 1: "insert_or_update ld plm q = ld \<and> add_new_learning ld k lm = ld"
    if "learningMode ld = Off \<or> isPaused ld \<or> isReadOnly ld"
    using that by (simp add: add_new_learning_def insert_or_update_def)
  have 2: "\<exists>e. (k, e) \<in> set (HT (add_new_learning ld k lm))
           \<and> LearningMove.move e = LearningMove.move lm"
    if "learningMode ld \<noteq> Off \<and> \<not> isPaused ld \<and> \<not> isReadOnly ld"
    using that HT_insert_or_update_has [of k "HT ld" lm]
    by (simp add: add_new_learning_def insert_or_update_def)
  have 3: "LD (set_position X E fen moves) = LD E"
    if "learningMode (LD E) = Off \<or> isPaused (LD E) \<or> isReadOnly (LD E)"
    using that
    by (simp add: set_position_def LD_set_position_moves foldl_replay_write_suppressed)
  from 1 2 3 show ?thesis by blast
qed

theorem write_gates_witness:
  "insert_or_update (LD (example_engine Standard False True))
       \<lparr>key = 1000, learningMove = \<lparr>depth = 5, score = 10, move = 796, performance = 100\<rparr>\<rparr>
       False
     = LD (example_engine Standard False True)
   \<and> add_new_learning (LD (example_engine Standard True False)) 1000
       \<lparr>depth = 5, score = 10, move = 796, performance = 100\<rparr>
     = LD (example_engine Standard True False)
   \<and> add_new_learning (LD (example_engine Off False False)) 1000
       \<lparr>depth = 5, score = 10, move = 796, performance = 100\<rparr>
     = LD (example_engine Off False False)
   \<and> (\<exists>e. (1000, e) \<in> set (HT (add_new_learning (LD (example_engine Standard False False)) 1000
              \<lparr>depth = 5, score = 10, move = 796, performance = 100\<rparr>))
         \<and> LearningMove.move e = 796)
   \<and> LD (set_position example_layer (example_engine Standard False True) ''startpos''
         [''e2e4'', ''e7e5''])
     = LD (example_engine Standard False True)"
proof -
  let ?lm = "\<lparr>depth = 5, score = 10, move = 796, performance = 100\<rparr>"
  let ?plm = "\<lparr>key = 1000, learningMove = ?lm\<rparr>"
  have ro: "isReadOnly (LD (example_engine Standard False True))"
    and pa: "isPaused (LD (example_engine Standard True False))"
    and off: "learningMode (LD (example_engine Off False False)) = Off"
    and ok: "learningMode (LD (example_engine Standard False False)) \<noteq> Off
      \<and> \<not> isPaused (LD (example_engine Standard False False))
      \<and> \<not> isReadOnly (LD (example_engine Standard False False))"
    by (simp_all add: example_engine_def)
  have 1: "insert_or_update (LD (example_engine Standard False True)) ?plm False
      = LD (example_engine Standard False True)"
    and 5: "LD (set_position example_layer (example_engine Standard False True) ''startpos''
         [''e2e4'', ''e7e5'']) = LD (example_engine Standard False True)"
    using write_gates [of "LD (example_engine Standard False True)" ?plm False 1000 ?lm
        "example_engine Standard False True" example_layer "''startpos''" "[''e2e4'', ''e7e5'']"]
      ro by blast+
  have 2: "add_new_learning (LD (example_engine Standard True False)) 1000 ?lm
      = LD (example_engine Standard True False)"
    using write_gates [of "LD (example_engine Standard True False)" ?plm False 1000 ?lm
        "example_engine Standard False True" example_layer "''startpos''" "[''e2e4'', ''e7e5'']"]
      pa by blast
  have 3: "add_new_learning (LD (example_engine Off False False)) 1000 ?lm
      = LD (example_engine Off False False)"
    using write_gates [of "LD (example_engine Off False False)" ?plm False 1000 ?lm
        "example_engine Standard False True" example_layer "''startpos''" "[''e2e4'', ''e7e5'']"]
      off by blast
  have 4: "\<exists>e. (1000, e) \<in> set (HT (add_new_learning (LD (example_engine Standard False False))
        1000 ?lm)) \<and> LearningMove.move e = 796"
    using write_gates [of "LD (example_engine Standard False False)" ?plm False 1000 ?lm
        "example_engine Standard False True" example_layer "''startpos''" "[''e2e4'', ''e7e5'']"]
      ok by simp
  from 1 2 3 4 5 show ?thesis by blast
qed

text \<open>
  C6. In mode \<open>Self\<close> the replay of \<open>Engine::set_position\<close> leaves the learning store as
  it was. In another mode, with learning enabled and not paused, it hands every replayed
  move, in order, to \<open>add_new_learning\<close>.
\<close>

theorem replay_self_mode:
  "(learning_mode (LD E) = Self \<longrightarrow> LD (set_position X E fen moves) = LD E)
   \<and> (learning_mode (LD E) \<noteq> Self \<and> is_enabled (LD E) \<and> \<not> is_paused (LD E) \<longrightarrow>
        LD (set_position X E fen moves) =
          foldl (\<lambda>ld (p, m). add_new_learning ld (pos_key X p)
                   \<lparr>depth = 0, score = VALUE_NONE X, move = m, performance = 100\<rparr>)
            (LD E) (replayed X (pos_set X fen (UCI_Chess960 E)) moves))"
  by (simp add: set_position_def LD_set_position_moves replay_write_eq)

theorem replay_self_mode_witness:
  "LD (set_position example_layer (example_engine Self False False) ''startpos''
         [''e2e4'', ''e7e5''])
     = LD (example_engine Self False False)
   \<and> HT (LD (set_position example_layer (example_engine Standard False False) ''startpos''
         [''e2e4'', ''e7e5'']))
     = [(1000, \<lparr>depth = 0, score = 32002, move = 796, performance = 100\<rparr>),
        (1001, \<lparr>depth = 0, score = 32002, move = 3364, performance = 100\<rparr>)]"
  using replay_self_mode [of "example_engine Self False False" example_layer "''startpos''"
      "[''e2e4'', ''e7e5'']"]
    replay_self_mode [of "example_engine Standard False False" example_layer "''startpos''"
      "[''e2e4'', ''e7e5'']"]
  by (simp add: example_engine_def example_layer_def learning_mode_def is_enabled_def
      is_paused_def add_new_learning_def insert_or_update_def)

text \<open>
  C9. What \<open>Engine::set_position\<close> does to the learning store is to write, for each
  replayed move in order, the key of the position before the move with depth 0, score
  \<open>VALUE_NONE\<close>, the move and performance 100, when its gate is open, and nothing
  otherwise. The replay stops at the first string that does not decode: what follows it
  changes nothing.
\<close>

theorem set_position_replay_records:
  "LD (set_position X E fen moves) =
     foldl (\<lambda>ld (p, m). add_new_learning ld (pos_key X p)
              \<lparr>depth = 0, score = VALUE_NONE X, move = m, performance = 100\<rparr>)
       (LD E)
       (if is_enabled (LD E) \<and> learning_mode (LD E) \<noteq> Self \<and> \<not> is_paused (LD E)
        then replayed X (pos_set X fen (UCI_Chess960 E)) moves else [])
   \<and> (to_move X (pos (set_position X E fen ms)) mv = Move_none X \<longrightarrow>
        set_position X E fen (ms @ mv # rest) = set_position X E fen ms)"
  by (simp add: set_position_def LD_set_position_moves replay_write_eq set_position_moves_stop)

theorem set_position_replay_records_witness:
  "HT (LD (set_position example_layer (example_engine Standard False False) ''startpos''
         [''e2e4'', ''zz'', ''e7e5'']))
     = [(1000, \<lparr>depth = 0, score = 32002, move = 796, performance = 100\<rparr>)]
   \<and> set_position example_layer (example_engine Standard False False) ''startpos''
         ([''e2e4''] @ ''zz'' # [''e7e5''])
     = set_position example_layer (example_engine Standard False False) ''startpos'' [''e2e4'']"
proof -
  note t = set_position_replay_records [of example_layer "example_engine Standard False False"
      "''startpos''" "[''e2e4'', ''zz'', ''e7e5'']" "[''e2e4'']" "''zz''" "[''e7e5'']"]
  have s: "to_move example_layer
          (pos (set_position example_layer (example_engine Standard False False) ''startpos''
             [''e2e4''])) ''zz'' = Move_none example_layer"
    by (simp add: example_layer_def)
  have 1: "LD (set_position example_layer (example_engine Standard False False) ''startpos''
         [''e2e4'', ''zz'', ''e7e5''])
      = (LD (example_engine Standard False False))
          \<lparr>HT := [(1000, \<lparr>depth = 0, score = 32002, move = 796, performance = 100\<rparr>)]\<rparr>"
    unfolding t [THEN conjunct1]
    by (simp add: example_engine_def example_layer_def is_enabled_def learning_mode_def
        is_paused_def add_new_learning_def insert_or_update_def)
  have 2: "set_position example_layer (example_engine Standard False False) ''startpos''
         ([''e2e4''] @ ''zz'' # [''e7e5''])
     = set_position example_layer (example_engine Standard False False) ''startpos'' [''e2e4'']"
    using t [THEN conjunct2] s by (rule mp)
  from 1 2 show ?thesis by simp
qed

section \<open>The range of the static evaluation\<close>

text \<open>
  C10. For a position that is not in check, \<open>Eval::evaluate\<close> returns a value \<open>v\<close> with
  \<open>VALUE_TB_LOSS_IN_MAX_PLY + 1 \<le> v \<le> VALUE_TB_WIN_IN_MAX_PLY - 1\<close>, the two constants
  being such that this range is not empty.
\<close>

theorem evaluate_outside_tb_range:
  assumes "checkers p = 0"
    and "sint (VALUE_TB_LOSS_IN_MAX_PLY C) + 1 \<le> sint (VALUE_TB_WIN_IN_MAX_PLY C) - 1"
  shows "\<exists>v. evaluate C p = Some v
     \<and> sint (VALUE_TB_LOSS_IN_MAX_PLY C) + 1 \<le> sint v
     \<and> sint v \<le> sint (VALUE_TB_WIN_IN_MAX_PLY C) - 1"
proof -
  let ?L = "VALUE_TB_LOSS_IN_MAX_PLY C" and ?W = "VALUE_TB_WIN_IN_MAX_PLY C"
  have "sint ?W < 2 ^ 31" using sint_lt [of ?W] by simp
  with assms(2) have "sint ?L < 2 ^ 31 - 1" by simp
  then have lo: "sint (?L + 1) = sint ?L + 1" by (rule sint_succ_32)
  have "- (2 ^ 31) \<le> sint ?L" using sint_ge [of ?L] by simp
  with assms(2) have "- (2 ^ 31) < sint ?W" by simp
  then have hi: "sint (?W - 1) = sint ?W - 1" by (rule sint_pred_32)
  from assms(2) have le: "sint (?L + 1) \<le> sint (?W - 1)" by (simp add: lo hi)
  have b: "sint ?L + 1 \<le> sint (int_clamp v (?L + 1) (?W - 1))
        \<and> sint (int_clamp v (?L + 1) (?W - 1)) \<le> sint ?W - 1" for v
    using int_clamp_bounds [OF le, of v] by (simp add: lo hi)
  show ?thesis
    using assms(1) b by (simp add: evaluate_def Let_def split: prod.splits)
qed

theorem evaluate_outside_tb_range_witness:
  "(\<exists>v. evaluate (example_env 1000000) example_position = Some v
        \<and> - 31506 \<le> sint v \<and> sint v \<le> 31506)
   \<and> evaluate (example_env 1000000) example_position = Some 31506
   \<and> evaluate (example_env 120) example_position = Some 126"
proof -
  have c: "checkers example_position = 0"
    by (simp add: example_position_def)
  have r: "sint (VALUE_TB_LOSS_IN_MAX_PLY (example_env 1000000)) + 1
           \<le> sint (VALUE_TB_WIN_IN_MAX_PLY (example_env 1000000)) - 1"
    by (simp add: example_env_def)
  have 1: "\<exists>v. evaluate (example_env 1000000) example_position = Some v
        \<and> - 31506 \<le> sint v \<and> sint v \<le> 31506"
    using evaluate_outside_tb_range [OF c r] by (simp add: example_env_def)
  have 2: "evaluate (example_env 1000000) example_position = Some 31506"
    by code_simp
  have 3: "evaluate (example_env 120) example_position = Some 126"
    by code_simp
  from 1 2 3 show ?thesis by blast
qed

end
